theory Spec2Isabelle
  imports Complex_Main
begin

section \<open>Rparadox: the R interface to pxlib (\<open>src/interface.c\<close>)\<close>

text \<open>
  The development embeds the marshalling layer of \<open>interface.c\<close>: the value decoder
  \<open>px_to_sexp\<close>, the dataset assembly \<open>pxlib_get_data_c\<close>, and the handle lifecycle
  (\<open>pxlib_open_file_c\<close>, \<open>pxlib_close_file_c\<close>, \<open>pxdoc_finalizer\<close>,
  \<open>check_pxdoc_ptr\<close>). Raises (\<open>Rf_error\<close>) and reads through a null or
  out-of-range pointer are values of the type \<open>condition\<close>; calls of the backend's
  release function are recorded, so that leaks and double releases can be stated.
\<close>

subsection \<open>C doubles\<close>

text \<open>
  A \<open>double\<close> is modelled by the rational number it denotes, or one of the special
  values. The two zeros, which compare equal and which no branch of the source tells
  apart, are one value. \<open>NA_REAL\<close> is R's missing value, a NaN with a reserved payload.
  \<open>rnd\<close> is IEEE-754 binary64 rounding to nearest, ties to even, with gradual underflow
  and overflow to infinity.
\<close>

datatype double = Fin rat | PInf | NInf | NaN | NA_REAL

function ilog2 :: "int \<Rightarrow> int" where
  "ilog2 n = (if n < 2 then 0 else 1 + ilog2 (n div 2))"
  by pat_completeness auto
termination
  by (relation "measure nat") auto

declare ilog2.simps [simp del]

definition pow2 :: "int \<Rightarrow> rat" where
  "pow2 e = (if 0 \<le> e then 2 ^ nat e else 1 / 2 ^ nat (- e))"

definition flog2 :: "rat \<Rightarrow> int" where
  \<comment> \<open>\<open>\<lfloor>log\<^sub>2 a\<rfloor>\<close> for \<open>a > 0\<close>\<close>
  "flog2 a = (case quotient_of a of (p, q) \<Rightarrow>
     let k = ilog2 p - ilog2 q
     in if pow2 k \<le> a then k else k - 1)"

definition round_half_even :: "rat \<Rightarrow> int" where
  "round_half_even x = (let f = \<lfloor>x\<rfloor>; r = x - of_int f
     in if r < 1 / 2 then f else if 1 / 2 < r then f + 1
        else if even f then f else f + 1)"

definition rnd :: "rat \<Rightarrow> double" where
  "rnd q = (if q = 0 then Fin 0 else
     let a = \<bar>q\<bar>;
         e = max (flog2 a - 52) (- 1074);
         v = of_int (round_half_even (a / pow2 e)) * pow2 e
     in if 2 ^ 1024 \<le> v then (if 0 < q then PInf else NInf)
        else Fin (if 0 < q then v else - v))"

definition double_of_long :: "int \<Rightarrow> double" where
  \<comment> \<open>the conversion \<open>(double) x\<close> of a C \<open>long\<close>\<close>
  "double_of_long x = rnd (of_int x)"

fun ddiv :: "double \<Rightarrow> rat \<Rightarrow> double" where
  \<comment> \<open>\<open>x / c\<close> for a finite constant \<open>c > 0\<close>\<close>
  "ddiv (Fin a) c = rnd (a / c)"
| "ddiv x c = x"

fun dsub :: "double \<Rightarrow> rat \<Rightarrow> double" where
  \<comment> \<open>\<open>x - c\<close> for a finite constant \<open>c\<close>\<close>
  "dsub (Fin a) c = rnd (a - c)"
| "dsub x c = x"

fun d_is_zero :: "double \<Rightarrow> bool" where
  \<comment> \<open>\<open>x == 0.0\<close>\<close>
  "d_is_zero (Fin a) = (a = 0)"
| "d_is_zero x = False"

fun d_negative :: "double \<Rightarrow> bool" where
  \<comment> \<open>\<open>x < 0\<close>: false on NaN\<close>
  "d_negative (Fin a) = (a < 0)"
| "d_negative NInf = True"
| "d_negative x = False"

subsection \<open>Values of the backend and of R\<close>

text \<open>
  A buffer allocated by the backend is its address and the bytes stored there; a
  \<open>char *\<close> is \<open>None\<close> when it is the null pointer. A \<open>pxval_t\<close> holds the null flag and
  the members of its value union: each branch of the decoder reads the member that the
  source reads.
\<close>

type_synonym buffer = "nat \<times> string"

record pxval =
  isnull :: char
  lval :: int
  dval :: double
  str_val :: "buffer option"
  str_len :: int

record pxfield =
  px_fname :: string
  px_ftype :: int
  px_flen :: int

text \<open>
  The field type codes of pxlib's header \<open>paradox.h\<close>, which the sources include and
  which is not among them. The proofs use only that the codes differ from one another.
\<close>

definition pxfAlpha :: int where "pxfAlpha = 0x01"
definition pxfDate :: int where "pxfDate = 0x02"
definition pxfShort :: int where "pxfShort = 0x03"
definition pxfLong :: int where "pxfLong = 0x04"
definition pxfCurrency :: int where "pxfCurrency = 0x05"
definition pxfNumber :: int where "pxfNumber = 0x06"
definition pxfLogical :: int where "pxfLogical = 0x09"
definition pxfMemoBLOb :: int where "pxfMemoBLOb = 0x0C"
definition pxfBLOb :: int where "pxfBLOb = 0x0D"
definition pxfFmtMemoBLOb :: int where "pxfFmtMemoBLOb = 0x0E"
definition pxfOLE :: int where "pxfOLE = 0x0F"
definition pxfGraphic :: int where "pxfGraphic = 0x10"
definition pxfTime :: int where "pxfTime = 0x14"
definition pxfTimestamp :: int where "pxfTimestamp = 0x15"
definition pxfAutoInc :: int where "pxfAutoInc = 0x16"
definition pxfBCD :: int where "pxfBCD = 0x17"
definition pxfBytes :: int where "pxfBytes = 0x18"

text \<open>
  What a call can end with instead of a value: an \<open>Rf_error\<close> of the interface, an error
  raised inside the R API, or a read through a null or out-of-range pointer (undefined
  behaviour in C, kept as a value here so that no branch is lost).
\<close>

datatype condition =
    Err_connection_closed_or_invalid
  | Err_filename
  | Err_password
  | Err_PX_new
  | Err_password_protected
  | Err_incorrect_password
  | Err_field_definitions
  | Err_retrieve_record int
  | Err_embedded_nul
  | Err_negative_length
  | Fault_null_pointer
  | Fault_out_of_bounds
  | Fault_dangling_pointer

datatype sexp =
    R_NilValue
  | NA_STRING
  | CharSxp string
  | RawSxp string
  | ScalarInteger int
  | ScalarReal double
  | LglSxp int
  | StrVec "string option list"
  | ExtPtr nat

definition INT_MIN :: int where "INT_MIN = - 2147483648"
definition NA_INTEGER :: int where "NA_INTEGER = INT_MIN"
definition NA_LOGICAL :: int where "NA_LOGICAL = INT_MIN"

definition int_of_long :: "int \<Rightarrow> int" where
  \<comment> \<open>a \<open>long\<close> passed where the callee takes an \<open>int\<close>: the low 32 bits, signed\<close>
  "int_of_long x = signed_take_bit 31 x"

definition ScalarLogical :: "int \<Rightarrow> sexp" where
  "ScalarLogical x =
     (if x = NA_LOGICAL then LglSxp NA_LOGICAL else if x \<noteq> 0 then LglSxp 1 else LglSxp 0)"

definition Rf_isNull :: "sexp \<Rightarrow> bool" where
  "Rf_isNull s = (s = R_NilValue)"

definition NUL :: char where "NUL = CHR 0x00"

fun strcmp_eq :: "string \<Rightarrow> string \<Rightarrow> bool option" where
  \<comment> \<open>\<open>strcmp(p, lit) == 0\<close> for the bytes at \<open>p\<close> and a literal without NUL;
      \<open>None\<close> when the comparison runs off the end of the allocation\<close>
  "strcmp_eq [] lit = None"
| "strcmp_eq (b # bs) [] = Some (b = NUL)"
| "strcmp_eq (b # bs) (c # cs) = (if b = c then strcmp_eq bs cs else Some False)"

definition mkChar :: "buffer \<Rightarrow> condition + sexp" where
  \<comment> \<open>R API: the bytes up to the terminating NUL\<close>
  "mkChar p = (if NUL \<in> set (snd p) then Inr (CharSxp (takeWhile (\<lambda>b. b \<noteq> NUL) (snd p)))
     else Inl Fault_out_of_bounds)"

definition mkCharLen :: "buffer option \<Rightarrow> int \<Rightarrow> condition + sexp" where
  \<comment> \<open>R API: a string of \<open>len\<close> bytes; R raises an error on an embedded NUL\<close>
  "mkCharLen p len =
     (if len < 0 then Inl Err_negative_length
      else case p of
        None \<Rightarrow> if len = 0 then Inr (CharSxp []) else Inl Fault_null_pointer
      | Some b \<Rightarrow>
          if int (length (snd b)) < len then Inl Fault_out_of_bounds
          else if NUL \<in> set (take (nat len) (snd b)) then Inl Err_embedded_nul
          else Inr (CharSxp (take (nat len) (snd b))))"

definition raw_copy :: "buffer option \<Rightarrow> int \<Rightarrow> condition + sexp" where
  \<comment> \<open>\<open>allocVector(RAWSXP, len)\<close> followed by \<open>memcpy\<close> of \<open>len\<close> bytes, for \<open>len \<noteq> 0\<close>\<close>
  "raw_copy p len =
     (if len < 0 then Inl Err_negative_length
      else case p of
        None \<Rightarrow> Inl Fault_null_pointer
      | Some b \<Rightarrow>
          if int (length (snd b)) < len then Inl Fault_out_of_bounds
          else Inr (RawSxp (take (nat len) (snd b))))"

definition px_free :: "buffer option \<Rightarrow> nat list" where
  \<comment> \<open>\<open>pxdoc->free(pxdoc, p)\<close>: the address released; nothing for the null pointer\<close>
  "px_free p = (case p of None \<Rightarrow> [] | Some b \<Rightarrow> [fst b])"

subsection \<open>The value decoder \<open>px_to_sexp\<close>\<close>

text \<open>
  The result of one decode step: the value returned or the condition raised, the
  addresses passed to the backend's release function, in order, and the type codes
  warned about.
\<close>

record decoded =
  ret :: "condition + sexp"
  released :: "nat list"
  warned :: "int list"

definition returns :: "sexp \<Rightarrow> nat list \<Rightarrow> decoded" where
  "returns r fs = \<lparr>ret = Inr r, released = fs, warned = []\<rparr>"

definition raises :: "condition \<Rightarrow> decoded" where
  "raises c = \<lparr>ret = Inl c, released = [], warned = []\<rparr>"

definition then_free :: "condition + sexp \<Rightarrow> buffer option \<Rightarrow> decoded" where
  \<comment> \<open>\<open>r = f(...); pxdoc->free(pxdoc, p); return r;\<close> where \<open>f\<close> may not return\<close>
  "then_free r p = (case r of Inl c \<Rightarrow> raises c | Inr v \<Rightarrow> returns v (px_free p))"

definition BCD_blank :: string where
  "BCD_blank = ''-??????????????????????????.??????''"

definition PARADOX_DATE_UPPER_BOUND :: int where
  "PARADOX_DATE_UPPER_BOUND = 3000000"

definition px_to_sexp :: "pxval \<Rightarrow> int \<Rightarrow> decoded" where
  "px_to_sexp val ftype =
    (if isnull val \<noteq> NUL then returns R_NilValue []
     else if ftype = pxfAlpha then
       (case str_val val of
          None \<Rightarrow> returns NA_STRING []
        | Some p \<Rightarrow> then_free (mkChar p) (Some p))
     else if ftype = pxfBCD then
       (case str_val val of
          None \<Rightarrow> raises Fault_null_pointer
        | Some p \<Rightarrow>
           (case strcmp_eq (snd p) BCD_blank of
              None \<Rightarrow> raises Fault_out_of_bounds
            | Some True \<Rightarrow> returns R_NilValue (px_free (Some p))
            | Some False \<Rightarrow> then_free (mkChar p) (Some p)))
     else if ftype = pxfMemoBLOb \<or> ftype = pxfFmtMemoBLOb then
       (case str_val val of
          None \<Rightarrow> returns R_NilValue []
        | Some p \<Rightarrow> then_free (mkCharLen (Some p) (str_len val)) (Some p))
     else if ftype = pxfBytes then
       then_free (mkCharLen (str_val val) (str_len val)) (str_val val)
     else if ftype = pxfBLOb \<or> ftype = pxfGraphic \<or> ftype = pxfOLE then
       (if str_len val = 0 then
          (if str_val val \<noteq> None then returns R_NilValue (px_free (str_val val))
           else returns R_NilValue [])
        else then_free (raw_copy (str_val val) (str_len val)) (str_val val))
     else if ftype = pxfShort \<or> ftype = pxfLong \<or> ftype = pxfAutoInc then
       returns (ScalarInteger (int_of_long (lval val))) []
     else if ftype = pxfNumber \<or> ftype = pxfCurrency then
       returns (ScalarReal (dval val)) []
     else if ftype = pxfLogical then
       returns (ScalarLogical (int_of_long (lval val))) []
     else if ftype = pxfDate then
       (let date_val = lval val in
        if date_val \<le> 0 \<or> date_val > PARADOX_DATE_UPPER_BOUND then returns R_NilValue []
        else returns (ScalarReal (dsub (double_of_long date_val) 719163)) [])
     else if ftype = pxfTime then
       (if lval val < 0 then returns R_NilValue []
        else returns (ScalarReal (ddiv (double_of_long (lval val)) 1000)) [])
     else if ftype = pxfTimestamp then
       (let paradox_seconds = ddiv (dval val) 1000 in
        if d_is_zero (dval val) \<or> d_negative paradox_seconds then returns R_NilValue []
        else returns (ScalarReal (dsub paradox_seconds (719163 * 86400))) [])
     else \<lparr>ret = Inr R_NilValue, released = [], warned = [ftype]\<rparr>)"

subsection \<open>The backend document\<close>

text \<open>
  Modelled from the spec: the Decoding Backend (pxlib's \<open>paradox.c\<close> and \<open>paradox.h\<close>)
  is not among the sources. A document exposes the header's encryption checksum and
  codepage number, the record and field counts, the field descriptors (a null array
  when they cannot be had) and, for each record number, the raw value array or null
  when the retrieval fails.
\<close>

record pxdoc_t =
  px_encryption :: int
  px_doscodepage :: int
  px_numrecords :: int
  px_numfields :: int
  px_fields :: "pxfield list option"
  px_records :: "pxval list option list"

definition PX_get_num_records :: "pxdoc_t \<Rightarrow> int" where
  \<comment> \<open>Modelled from the spec: \<open>record_count(doc)\<close>\<close>
  "PX_get_num_records pxdoc = px_numrecords pxdoc"

definition PX_get_num_fields :: "pxdoc_t \<Rightarrow> int" where
  \<comment> \<open>Modelled from the spec: \<open>field_count(doc)\<close>\<close>
  "PX_get_num_fields pxdoc = px_numfields pxdoc"

definition PX_get_fields :: "pxdoc_t \<Rightarrow> pxfield list option" where
  \<comment> \<open>Modelled from the spec: \<open>fields(doc) -> descriptor list\<close>\<close>
  "PX_get_fields pxdoc = px_fields pxdoc"

definition PX_retrieve_record :: "pxdoc_t \<Rightarrow> nat \<Rightarrow> pxval list option" where
  \<comment> \<open>Modelled from the spec: \<open>retrieve_record(doc, index) -> raw value array | null\<close>\<close>
  "PX_retrieve_record pxdoc i =
     (if i < length (px_records pxdoc) then px_records pxdoc ! i else None)"

subsection \<open>Columns and the dataset\<close>

datatype sexptype = VECSXP | STRSXP | INTSXP | REALSXP | LGLSXP

datatype column =
    VecCol "sexp list"
  | StrCol "sexp list"
  | IntCol "int list"
  | RealCol "double list"
  | LglCol "int list"

record named_column =
  col_name :: string
  col_data :: column
  col_attrs :: "(string \<times> string list) list"

fun TYPEOF :: "column \<Rightarrow> sexptype" where
  "TYPEOF (VecCol xs) = VECSXP"
| "TYPEOF (StrCol xs) = STRSXP"
| "TYPEOF (IntCol xs) = INTSXP"
| "TYPEOF (RealCol xs) = REALSXP"
| "TYPEOF (LglCol xs) = LGLSXP"

fun allocVector :: "sexptype \<Rightarrow> nat \<Rightarrow> column" where
  \<comment> \<open>a list starts with null elements and a character vector with empty strings; the
      cells of the other vectors start unset (written here as zero) and each is
      assigned by the filling loop before the dataset is returned\<close>
  "allocVector VECSXP n = VecCol (replicate n R_NilValue)"
| "allocVector STRSXP n = StrCol (replicate n (CharSxp []))"
| "allocVector INTSXP n = IntCol (replicate n 0)"
| "allocVector REALSXP n = RealCol (replicate n (Fin 0))"
| "allocVector LGLSXP n = LglCol (replicate n 0)"

definition column_type :: "int \<Rightarrow> sexptype" where
  \<comment> \<open>the \<open>switch\<close> of Step 1 of \<open>pxlib_get_data_c\<close>\<close>
  "column_type ftype =
    (if ftype = pxfBLOb \<or> ftype = pxfOLE \<or> ftype = pxfGraphic \<or> ftype = pxfBytes then VECSXP
     else if ftype = pxfShort \<or> ftype = pxfLong \<or> ftype = pxfAutoInc then INTSXP
     else if ftype = pxfNumber \<or> ftype = pxfCurrency \<or> ftype = pxfDate \<or> ftype = pxfTime
          \<or> ftype = pxfTimestamp then REALSXP
     else if ftype = pxfLogical then LGLSXP
     else STRSXP)"

definition alloc_columns :: "pxfield list \<Rightarrow> nat \<Rightarrow> nat \<Rightarrow> column list" where
  \<comment> \<open>Step 1: for \<open>j\<close> from \<open>0\<close> below \<open>num_fields\<close>\<close>
  "alloc_columns fields' num_fields num_records =
     map (\<lambda>j. allocVector (column_type (px_ftype (fields' ! j))) num_records) [0..<num_fields]"

fun asInteger :: "sexp \<Rightarrow> int" where
  "asInteger (ScalarInteger x) = x"
| "asInteger (LglSxp x) = x"
| "asInteger r = NA_INTEGER"

fun asReal :: "sexp \<Rightarrow> double" where
  "asReal (ScalarReal d) = d"
| "asReal (ScalarInteger x) = (if x = NA_INTEGER then NA_REAL else rnd (of_int x))"
| "asReal (LglSxp x) = (if x = NA_LOGICAL then NA_REAL else rnd (of_int x))"
| "asReal r = NA_REAL"

fun asLogical :: "sexp \<Rightarrow> int" where
  "asLogical (LglSxp x) = x"
| "asLogical (ScalarInteger x) = (if x = NA_INTEGER then NA_LOGICAL else if x \<noteq> 0 then 1 else 0)"
| "asLogical r = NA_LOGICAL"

fun store :: "column \<Rightarrow> nat \<Rightarrow> sexp \<Rightarrow> column" where
  \<comment> \<open>the \<open>switch (TYPEOF(column))\<close> of Step 2\<close>
  "store (VecCol xs) i r_val = VecCol (xs[i := r_val])"
| "store (StrCol xs) i r_val = StrCol (xs[i := (if Rf_isNull r_val then NA_STRING else r_val)])"
| "store (IntCol xs) i r_val = IntCol (xs[i := (if Rf_isNull r_val then NA_INTEGER else asInteger r_val)])"
| "store (RealCol xs) i r_val = RealCol (xs[i := (if Rf_isNull r_val then NA_REAL else asReal r_val)])"
| "store (LglCol xs) i r_val = LglCol (xs[i := (if Rf_isNull r_val then NA_LOGICAL else asLogical r_val)])"

text \<open>
  The state of the filling loops: the columns of \<open>data_list\<close>, the buffers released so
  far and the warnings given so far. The value structures and the value array, which
  the loops also hand back to the backend (\<open>FREE_PXVAL\<close>, \<open>pxdoc->free\<close>), have no
  address here, and the protection of objects from R's garbage collector has no
  counterpart.
\<close>

record filling =
  cols :: "column list"
  freed :: "nat list"
  warnings :: "int list"

fun fill_record :: "pxfield list \<Rightarrow> pxval list \<Rightarrow> nat \<Rightarrow> nat list \<Rightarrow> filling
    \<Rightarrow> condition option \<times> filling" where
  \<comment> \<open>the inner loop of Step 2 for record \<open>i\<close>, over the field numbers given\<close>
  "fill_record fields' record_values i [] st = (None, st)"
| "fill_record fields' record_values i (j # js) st =
     (if length record_values \<le> j then (Some Fault_out_of_bounds, st)
      else
        let d = px_to_sexp (record_values ! j) (px_ftype (fields' ! j));
            st' = st\<lparr>freed := freed st @ released d, warnings := warnings st @ warned d\<rparr>
        in case ret d of
             Inl c \<Rightarrow> (Some c, st')
           | Inr r_val \<Rightarrow>
               fill_record fields' record_values i js
                 (st'\<lparr>cols := (cols st')[j := store (cols st' ! j) i r_val]\<rparr>))"

fun fill_records :: "pxdoc_t \<Rightarrow> pxfield list \<Rightarrow> nat \<Rightarrow> nat list \<Rightarrow> filling
    \<Rightarrow> condition option \<times> filling" where
  \<comment> \<open>the outer loop of Step 2, over the record numbers given\<close>
  "fill_records pxdoc fields' num_fields [] st = (None, st)"
| "fill_records pxdoc fields' num_fields (i # is) st =
     (case PX_retrieve_record pxdoc i of
        None \<Rightarrow> (Some (Err_retrieve_record (int i + 1)), st)
      | Some record_values \<Rightarrow>
          (case fill_record fields' record_values i [0..<num_fields] st of
             (Some c, st') \<Rightarrow> (Some c, st')
           | (None, st') \<Rightarrow> fill_records pxdoc fields' num_fields is st'))"

definition class_attrs :: "int \<Rightarrow> (string \<times> string list) list" where
  \<comment> \<open>Step 4: the presentation attributes of a column\<close>
  "class_attrs ftype =
    (if ftype = pxfDate then [(''class'', [''Date''])]
     else if ftype = pxfTime then [(''class'', [''hms'', ''difftime'']), (''units'', [''secs''])]
     else if ftype = pxfTimestamp then
       [(''class'', [''POSIXct'', ''POSIXt'']), (''tzone'', [''UTC''])]
     else [])"

definition name_columns :: "pxfield list \<Rightarrow> nat \<Rightarrow> column list \<Rightarrow> named_column list" where
  \<comment> \<open>Steps 3 and 4\<close>
  "name_columns fields' num_fields cs =
     map (\<lambda>j. \<lparr>col_name = px_fname (fields' ! j), col_data = cs ! j,
                col_attrs = class_attrs (px_ftype (fields' ! j))\<rparr>) [0..<num_fields]"

text \<open>
  The result of a dataset fetch: the condition raised, or the dataset (\<open>None\<close> for
  \<open>R_NilValue\<close>), with the buffers released and the warnings given during the call.
\<close>

record fetched =
  result :: "condition + named_column list option"
  buffers_freed :: "nat list"
  warnings_given :: "int list"

definition get_data :: "pxdoc_t \<Rightarrow> fetched" where
  \<comment> \<open>\<open>pxlib_get_data_c\<close> from the point where the handle has been checked. The array
      \<open>fields\<close> is read at every index below \<open>num_fields\<close> in Step 1, before any value is
      decoded: a shorter array is an out-of-bounds read there.\<close>
  "get_data pxdoc =
    (let num_records = PX_get_num_records pxdoc;
         num_fields = PX_get_num_fields pxdoc
     in if num_records \<le> 0 then \<lparr>result = Inr None, buffers_freed = [], warnings_given = []\<rparr>
        else case PX_get_fields pxdoc of
          None \<Rightarrow> \<lparr>result = Inl Err_field_definitions, buffers_freed = [], warnings_given = []\<rparr>
        | Some fields' \<Rightarrow>
            if num_fields < 0 then
              \<lparr>result = Inl Err_negative_length, buffers_freed = [], warnings_given = []\<rparr>
            else if int (length fields') < num_fields then
              \<lparr>result = Inl Fault_out_of_bounds, buffers_freed = [], warnings_given = []\<rparr>
            else
              let data_list = alloc_columns fields' (nat num_fields) (nat num_records)
              in case fill_records pxdoc fields' (nat num_fields) [0..<nat num_records]
                        \<lparr>cols = data_list, freed = [], warnings = []\<rparr> of
                   (Some c, st) \<Rightarrow>
                     \<lparr>result = Inl c, buffers_freed = freed st, warnings_given = warnings st\<rparr>
                 | (None, st) \<Rightarrow>
                     \<lparr>result = Inr (Some (name_columns fields' (nat num_fields) (cols st))),
                      buffers_freed = freed st, warnings_given = warnings st\<rparr>)"

subsection \<open>The session: external pointers and the backend's documents\<close>

text \<open>
  Modelled from the spec: \<open>PX_new\<close>, \<open>PX_open_file\<close>, \<open>PX_close\<close> and \<open>PX_delete\<close> are
  the backend's \<open>new_document()\<close>, \<open>open(doc, path) -> status\<close>, \<open>close(doc)\<close> and
  \<open>delete(doc)\<close>. The world holds the files the backend can open, the documents
  allocated and not yet deleted, the address each external pointer object of R holds
  (\<open>None\<close> once cleared), the external pointers with a registered finalizer, the calls
  made to the backend, in order, and the warnings given.
\<close>

datatype backend_call =
    Call_PX_new nat
  | Call_PX_open_file nat string
  | Call_PX_close nat
  | Call_PX_delete nat

datatype doc_state = Unopened | Opened pxdoc_t

datatype r_warning = Warn_failed_to_open string

record world =
  files :: "string \<Rightarrow> pxdoc_t option"
  px_new_ok :: bool
  next_addr :: nat
  heap :: "nat \<Rightarrow> doc_state option"
  extptr_addr :: "nat \<Rightarrow> nat option"
  next_extptr :: nat
  finalizable :: "nat list"
  calls :: "backend_call list"
  r_warnings :: "r_warning list"

definition PX_new :: "world \<Rightarrow> nat option \<times> world" where
  \<comment> \<open>Modelled from the spec: \<open>new_document()\<close>; a fresh address, or null\<close>
  "PX_new w =
     (if px_new_ok w then
        (Some (next_addr w),
         w\<lparr>heap := (heap w)(next_addr w := Some Unopened), next_addr := next_addr w + 1,
           calls := calls w @ [Call_PX_new (next_addr w)]\<rparr>)
      else (None, w))"

definition PX_open_file :: "world \<Rightarrow> nat \<Rightarrow> string \<Rightarrow> int \<times> world" where
  \<comment> \<open>Modelled from the spec: \<open>open(doc, path) -> status\<close>; zero on success\<close>
  "PX_open_file w pxdoc filename =
     (case files w filename of
        None \<Rightarrow> (- 1, w\<lparr>calls := calls w @ [Call_PX_open_file pxdoc filename]\<rparr>)
      | Some d \<Rightarrow>
          (0, w\<lparr>heap := (heap w)(pxdoc := Some (Opened d)),
                calls := calls w @ [Call_PX_open_file pxdoc filename]\<rparr>))"

definition PX_close :: "world \<Rightarrow> nat \<Rightarrow> world" where
  \<comment> \<open>Modelled from the spec: \<open>close(doc)\<close>\<close>
  "PX_close w pxdoc =
     w\<lparr>heap := (heap w)(pxdoc := map_option (\<lambda>s. Unopened) (heap w pxdoc)),
       calls := calls w @ [Call_PX_close pxdoc]\<rparr>"

definition PX_delete :: "world \<Rightarrow> nat \<Rightarrow> world" where
  \<comment> \<open>Modelled from the spec: \<open>delete(doc)\<close>; the document is no longer allocated\<close>
  "PX_delete w pxdoc =
     w\<lparr>heap := (heap w)(pxdoc := None), calls := calls w @ [Call_PX_delete pxdoc]\<rparr>"

definition is_EXTPTRSXP :: "sexp \<Rightarrow> bool" where
  "is_EXTPTRSXP x = (case x of ExtPtr e \<Rightarrow> True | _ \<Rightarrow> False)"

definition R_ExternalPtrAddr :: "world \<Rightarrow> sexp \<Rightarrow> nat option" where
  "R_ExternalPtrAddr w x = (case x of ExtPtr e \<Rightarrow> extptr_addr w e | _ \<Rightarrow> None)"

definition R_ClearExternalPtr :: "world \<Rightarrow> sexp \<Rightarrow> world" where
  "R_ClearExternalPtr w x =
     (case x of ExtPtr e \<Rightarrow> w\<lparr>extptr_addr := (extptr_addr w)(e := None)\<rparr> | _ \<Rightarrow> w)"

definition R_MakeExternalPtr :: "world \<Rightarrow> nat \<Rightarrow> sexp \<times> world" where
  "R_MakeExternalPtr w p =
     (ExtPtr (next_extptr w),
      w\<lparr>extptr_addr := (extptr_addr w)(next_extptr w := Some p),
        next_extptr := next_extptr w + 1\<rparr>)"

definition R_RegisterCFinalizerEx :: "world \<Rightarrow> sexp \<Rightarrow> world" where
  "R_RegisterCFinalizerEx w x =
     (case x of ExtPtr e \<Rightarrow> w\<lparr>finalizable := e # finalizable w\<rparr> | _ \<Rightarrow> w)"

definition check_pxdoc_ptr :: "world \<Rightarrow> sexp \<Rightarrow> condition + nat option" where
  "check_pxdoc_ptr w pxdoc_extptr =
     (if \<not> is_EXTPTRSXP pxdoc_extptr \<or> R_ExternalPtrAddr w pxdoc_extptr = None
      then Inl Err_connection_closed_or_invalid
      else Inr (R_ExternalPtrAddr w pxdoc_extptr))"

definition pxdoc_finalizer :: "world \<Rightarrow> sexp \<Rightarrow> world" where
  "pxdoc_finalizer w extptr =
     (if \<not> is_EXTPTRSXP extptr then w
      else case R_ExternalPtrAddr w extptr of
        Some pxdoc \<Rightarrow> R_ClearExternalPtr (PX_delete w pxdoc) extptr
      | None \<Rightarrow> w)"

definition pxlib_close_file_c :: "world \<Rightarrow> sexp \<Rightarrow> (condition + sexp) \<times> world" where
  "pxlib_close_file_c w pxdoc_extptr =
     (case check_pxdoc_ptr w pxdoc_extptr of
        Inl c \<Rightarrow> (Inl c, w)
      | Inr None \<Rightarrow> (Inr R_NilValue, w)
      | Inr (Some pxdoc) \<Rightarrow>
          (Inr R_NilValue, R_ClearExternalPtr (PX_delete w pxdoc) pxdoc_extptr))"

definition single_string :: "sexp \<Rightarrow> string option" where
  \<comment> \<open>a character vector of length one whose element is not \<open>NA_STRING\<close>\<close>
  "single_string x = (case x of StrVec [Some s] \<Rightarrow> Some s | _ \<Rightarrow> None)"

definition ulong_of_long :: "int \<Rightarrow> int" where
  \<comment> \<open>the cast \<open>(unsigned long) x\<close>, for a 64-bit \<open>long\<close>\<close>
  "ulong_of_long x = x mod 2 ^ 64"

definition teardown :: "world \<Rightarrow> nat \<Rightarrow> world" where
  \<comment> \<open>\<open>PX_close(pxdoc); PX_delete(pxdoc);\<close>\<close>
  "teardown w pxdoc = PX_delete (PX_close w pxdoc) pxdoc"

definition make_handle :: "world \<Rightarrow> nat \<Rightarrow> (condition + sexp) \<times> world" where
  "make_handle w pxdoc =
     (case R_MakeExternalPtr w pxdoc of
        (pxdoc_extptr, w') \<Rightarrow> (Inr pxdoc_extptr, R_RegisterCFinalizerEx w' pxdoc_extptr))"

definition pxlib_open_file_c ::
    "(string \<Rightarrow> int) \<Rightarrow> world \<Rightarrow> sexp \<Rightarrow> sexp \<Rightarrow> (condition + sexp) \<times> world" where
  \<comment> \<open>\<open>px_passwd_checksum\<close>, declared in \<open>px_crypt.h\<close>, is a parameter; the class
      attribute set on the external pointer is left out\<close>
  "pxlib_open_file_c px_passwd_checksum w filename_sexp password_sexp =
    (case single_string filename_sexp of
       None \<Rightarrow> (Inl Err_filename, w)
     | Some filename \<Rightarrow>
        if \<not> Rf_isNull password_sexp \<and> single_string password_sexp = None
        then (Inl Err_password, w)
        else
          let password = (if Rf_isNull password_sexp then None else single_string password_sexp)
          in case PX_new w of
               (None, w1) \<Rightarrow> (Inl Err_PX_new, w1)
             | (Some pxdoc, w1) \<Rightarrow>
                 (case PX_open_file w1 pxdoc filename of
                    (status, w2) \<Rightarrow>
                      if status \<noteq> 0 then
                        (Inr R_NilValue,
                         (PX_delete w2 pxdoc)
                           \<lparr>r_warnings := r_warnings w2 @ [Warn_failed_to_open filename]\<rparr>)
                      else
                        (case heap w2 pxdoc of
                           Some (Opened d) \<Rightarrow>
                             let encryption = px_encryption d
                             in if encryption \<noteq> 0 then
                                  (case password of
                                     None \<Rightarrow> (Inl Err_password_protected, teardown w2 pxdoc)
                                   | Some pw \<Rightarrow>
                                       if ulong_of_long (px_passwd_checksum pw) \<noteq> encryption
                                       then (Inl Err_incorrect_password, teardown w2 pxdoc)
                                       else make_handle w2 pxdoc)
                                else make_handle w2 pxdoc
                         | _ \<Rightarrow> (Inl Fault_null_pointer, w2))))"

definition pxlib_get_data_c :: "world \<Rightarrow> sexp \<Rightarrow> fetched" where
  "pxlib_get_data_c w pxdoc_extptr =
     (case check_pxdoc_ptr w pxdoc_extptr of
        Inl c \<Rightarrow> \<lparr>result = Inl c, buffers_freed = [], warnings_given = []\<rparr>
      | Inr None \<Rightarrow> \<lparr>result = Inl Fault_null_pointer, buffers_freed = [], warnings_given = []\<rparr>
      | Inr (Some pxdoc) \<Rightarrow>
          (case heap w pxdoc of
             Some (Opened d) \<Rightarrow> get_data d
           | Some Unopened \<Rightarrow>
               \<lparr>result = Inl Fault_null_pointer, buffers_freed = [], warnings_given = []\<rparr>
           | None \<Rightarrow>
               \<lparr>result = Inl Fault_dangling_pointer, buffers_freed = [], warnings_given = []\<rparr>))"

text \<open>The type codes that the switches of the source name.\<close>

definition known_types :: "int set" where
  "known_types = {pxfAlpha, pxfDate, pxfShort, pxfLong, pxfCurrency, pxfNumber, pxfLogical,
     pxfMemoBLOb, pxfBLOb, pxfFmtMemoBLOb, pxfOLE, pxfGraphic, pxfTime, pxfTimestamp,
     pxfAutoInc, pxfBCD, pxfBytes}"

text \<open>
  A raw value array decodes when it has a value for each of the \<open>num_fields\<close> fields and
  no value makes the decode step raise.
\<close>

definition decodes :: "pxfield list \<Rightarrow> nat \<Rightarrow> pxval list \<Rightarrow> bool" where
  "decodes fields' num_fields record_values =
     list_all (\<lambda>j. j < length record_values
                  \<and> \<not> isl (ret (px_to_sexp (record_values ! j) (px_ftype (fields' ! j)))))
       [0..<num_fields]"

text \<open>The type codes whose values carry a buffer in the string member of the union.\<close>

definition buffer_types :: "int set" where
  "buffer_types = {pxfAlpha, pxfBCD, pxfMemoBLOb, pxfFmtMemoBLOb, pxfBytes, pxfBLOb,
     pxfGraphic, pxfOLE}"

subsection \<open>Sample inputs\<close>

definition date_value :: "int \<Rightarrow> pxval" where
  "date_value d = \<lparr>isnull = NUL, lval = d, dval = Fin 0, str_val = None, str_len = 0\<rparr>"

definition timestamp_value :: "double \<Rightarrow> pxval" where
  "timestamp_value x = \<lparr>isnull = NUL, lval = 0, dval = x, str_val = None, str_len = 0\<rparr>"

definition string_value :: "char \<Rightarrow> buffer option \<Rightarrow> int \<Rightarrow> pxval" where
  "string_value flag p len = \<lparr>isnull = flag, lval = 0, dval = Fin 0, str_val = p, str_len = len\<rparr>"

definition long_value :: "int \<Rightarrow> pxval" where
  "long_value x = \<lparr>isnull = NUL, lval = x, dval = Fin 0, str_val = None, str_len = 0\<rparr>"

definition null_value :: pxval where
  "null_value = \<lparr>isnull = CHR 0x01, lval = 0, dval = Fin 0, str_val = None, str_len = 0\<rparr>"

definition field :: "string \<Rightarrow> int \<Rightarrow> pxfield" where
  "field name ftype = \<lparr>px_fname = name, px_ftype = ftype, px_flen = 4\<rparr>"

definition table :: "pxfield list \<Rightarrow> pxval list option list \<Rightarrow> pxdoc_t" where
  "table fs rs = \<lparr>px_encryption = 0, px_doscodepage = 0, px_numrecords = int (length rs),
     px_numfields = int (length fs), px_fields = Some fs, px_records = rs\<rparr>"

text \<open>A table with a field of the unknown type code \<open>99\<close>, whose one value is null.\<close>

definition exotic_table :: pxdoc_t where
  "exotic_table = table [field ''X'' 99, field ''N'' pxfLong]
     [Some [null_value, long_value 4294967301]]"

text \<open>A table whose second record cannot be retrieved.\<close>

definition broken_table :: pxdoc_t where
  "broken_table = table [field ''N'' pxfLong, field ''D'' pxfDate]
     [Some [long_value 7, date_value 719163], None, Some [long_value 8, null_value]]"

text \<open>
  A world with two files, one of them encrypted, and no document yet; a stand-in for
  the checksum function; the session after the plain file has been opened, and after
  its handle has been closed.
\<close>

definition secret_table :: pxdoc_t where
  "secret_table = (table [field ''N'' pxfLong] [Some [long_value 7]])\<lparr>px_encryption := 4660\<rparr>"

definition demo_files :: "string \<Rightarrow> pxdoc_t option" where
  "demo_files name = (if name = ''plain.db'' then Some broken_table
     else if name = ''secret.db'' then Some secret_table else None)"

definition demo_checksum :: "string \<Rightarrow> int" where
  "demo_checksum pw = (if pw = ''sesame'' then 4660 else int (length pw))"

definition demo_world :: world where
  "demo_world = \<lparr>files = demo_files, px_new_ok = True, next_addr = 0, heap = (\<lambda>a. None),
     extptr_addr = (\<lambda>e. None), next_extptr = 0, finalizable = [], calls = [],
     r_warnings = []\<rparr>"

definition opened_session :: world where
  "opened_session =
     snd (pxlib_open_file_c demo_checksum demo_world (StrVec [Some ''plain.db'']) R_NilValue)"

definition closed_session :: world where
  "closed_session = snd (pxlib_close_file_c opened_session (ExtPtr 0))"

subsection \<open>Facts about the type codes\<close>

lemmas pxf_defs = pxfAlpha_def pxfDate_def pxfShort_def pxfLong_def pxfCurrency_def
  pxfNumber_def pxfLogical_def pxfMemoBLOb_def pxfBLOb_def pxfFmtMemoBLOb_def pxfOLE_def
  pxfGraphic_def pxfTime_def pxfTimestamp_def pxfAutoInc_def pxfBCD_def pxfBytes_def

subsection \<open>Conversions that are exact\<close>

text \<open>An integer below \<open>2\<^sup>5\<^sup>3\<close> in magnitude is a double: rounding leaves it as it is.\<close>

lemma ilog2_nonneg: "0 \<le> ilog2 n"
  by (induction n rule: ilog2.induct) (subst ilog2.simps, simp)

lemma ilog2_pow_le: "1 \<le> n \<Longrightarrow> 2 ^ nat (ilog2 n) \<le> n"
proof (induction n rule: ilog2.induct)
  case (1 n)
  show ?case
  proof (cases "n < 2")
    case True
    with "1.prems" show ?thesis by (subst ilog2.simps) simp
  next
    case False
    then have h: "1 \<le> n div 2" by simp
    have ih: "2 ^ nat (ilog2 (n div 2)) \<le> n div 2"
      using "1.IH" False h by simp
    have "ilog2 n = 1 + ilog2 (n div 2)"
      using False by (subst ilog2.simps) simp
    then have "(2::int) ^ nat (ilog2 n) = 2 * 2 ^ nat (ilog2 (n div 2))"
      using ilog2_nonneg [of "n div 2"] by (simp add: nat_add_distrib)
    also have "\<dots> \<le> 2 * (n div 2)" using ih by simp
    also have "\<dots> \<le> n" by simp
    finally show ?thesis .
  qed
qed

lemma ilog2_le_52: "n < 2 ^ 53 \<Longrightarrow> ilog2 n \<le> 52"
proof (cases "1 \<le> n")
  case True
  assume "n < 2 ^ 53"
  with ilog2_pow_le [OF True] have "(2::int) ^ nat (ilog2 n) < 2 ^ 53" by simp
  then have "nat (ilog2 n) < 53" by (simp only: power_strict_increasing_iff one_less_numeral_iff semiring_norm)
  then show ?thesis by simp
next
  case False
  then show ?thesis by (subst ilog2.simps) simp
qed

lemma round_half_even_of_int: "round_half_even (of_int m) = m"
  by (simp add: round_half_even_def)

lemma flog2_of_int_le: "1 \<le> n \<Longrightarrow> n < 2 ^ 53 \<Longrightarrow> flog2 (of_int n) \<le> 52"
  using ilog2_le_52 [of n] by (simp add: flog2_def Let_def ilog2.simps [of 1])

lemma rnd_core:
  assumes "1 \<le> m" "m < 2 ^ 53"
  shows "of_int (round_half_even (of_int m / pow2 (max (flog2 (of_int m) - 52) (- 1074))))
           * pow2 (max (flog2 (of_int m) - 52) (- 1074)) = (of_int m :: rat)"
proof -
  define e where "e = max (flog2 (of_int m) - 52) (- 1074)"
  have e: "e \<le> 0" using flog2_of_int_le [OF assms] by (simp add: e_def)
  have p: "pow2 e = 1 / 2 ^ nat (- e)" using e by (cases "e = 0") (simp_all add: pow2_def)
  have "of_int m / pow2 e = (of_int (m * 2 ^ nat (- e)) :: rat)" by (simp add: p)
  then have r: "round_half_even (of_int m / pow2 e) = m * 2 ^ nat (- e)"
    by (simp only: round_half_even_of_int)
  show ?thesis
    unfolding e_def [symmetric] r by (simp add: p)
qed

lemma rnd_int:
  assumes "\<bar>n\<bar> < 2 ^ 53"
  shows "rnd (of_int n) = Fin (of_int n)"
proof -
  have lt: "(of_int m :: rat) < 2 ^ 1024" if "m < 2 ^ 53" for m :: int
  proof -
    have "(of_int m :: rat) < of_int (2 ^ 53)" using that by (simp only: of_int_less_iff)
    also have "\<dots> < 2 ^ 1024" by simp
    finally show ?thesis .
  qed
  consider "n = 0" | "1 \<le> n" | "1 \<le> - n" by linarith
  then show ?thesis
  proof cases
    case 1
    then show ?thesis by (simp add: rnd_def)
  next
    case 2
    then have m: "n < 2 ^ 53" and a: "\<bar>of_int n :: rat\<bar> = of_int n" using assms by simp_all
    show ?thesis
      using 2 lt [OF m] unfolding rnd_def Let_def a rnd_core [OF 2 m] by simp
  next
    case 3
    then have m: "- n < 2 ^ 53" and a: "\<bar>of_int n :: rat\<bar> = of_int (- n)"
      using assms by simp_all
    show ?thesis
      using 3 lt [OF m] unfolding rnd_def Let_def a rnd_core [OF 3 m] by simp
  qed
qed

lemma double_of_long_exact: "\<bar>x\<bar> < 2 ^ 53 \<Longrightarrow> double_of_long x = Fin (of_int x)"
  by (simp add: double_of_long_def rnd_int)

lemma rnd_numeral: "numeral k < (2 ^ 53 :: int) \<Longrightarrow> rnd (numeral k) = Fin (numeral k)"
  using rnd_int [of "numeral k"] by simp

lemma date_in_range_exact:
  assumes "0 < d" "d \<le> 3000000"
  shows "dsub (double_of_long d) 719163 = Fin (of_int (d - 719163))"
proof -
  have "double_of_long d = Fin (of_int d)"
    using assms by (intro double_of_long_exact) simp
  moreover have "rnd (of_int (d - 719163)) = Fin (of_int (d - 719163))"
    using assms by (intro rnd_int) simp
  ultimately show ?thesis by simp
qed

lemma rnd_neg_numeral:
  "numeral k < (2 ^ 53 :: int) \<Longrightarrow> rnd (- numeral k) = Fin (- numeral k)"
  using rnd_int [of "- numeral k"] by simp

lemma rnd_zero: "rnd 0 = Fin 0" and rnd_one: "rnd 1 = Fin 1"
  and rnd_minus_one: "rnd (- 1) = Fin (- 1)"
  using rnd_int [of 0] rnd_int [of 1] rnd_int [of "- 1"] by simp_all

lemmas rnd_exact = rnd_numeral rnd_neg_numeral rnd_zero rnd_one rnd_minus_one

subsection \<open>The value decoder\<close>

text \<open>
  Claim C3. A date whose null flag is unset decodes to the absent marker exactly when
  the stored day count is at most \<open>0\<close> or more than \<open>3000000\<close>; otherwise it decodes to
  the day count minus \<open>719163\<close>, and the subtraction is exact.
\<close>

theorem date_decoding:
  assumes "isnull v = NUL"
  shows "(ret (px_to_sexp v pxfDate) = Inr R_NilValue \<longleftrightarrow> lval v \<le> 0 \<or> 3000000 < lval v)
       \<and> (\<not> (lval v \<le> 0 \<or> 3000000 < lval v) \<longrightarrow>
            ret (px_to_sexp v pxfDate) = Inr (ScalarReal (Fin (of_int (lval v - 719163)))))"
  using assms date_in_range_exact [of "lval v"]
  by (simp add: px_to_sexp_def pxf_defs returns_def PARADOX_DATE_UPPER_BOUND_def Let_def)

text \<open>The inputs \<open>0\<close>, \<open>-1\<close> and \<open>3000001\<close> are absent, and \<open>719163\<close> is day \<open>0\<close>.\<close>

theorem date_decoding_witness:
  "ret (px_to_sexp (date_value 0) pxfDate) = Inr R_NilValue
   \<and> ret (px_to_sexp (date_value (- 1)) pxfDate) = Inr R_NilValue
   \<and> ret (px_to_sexp (date_value 3000001) pxfDate) = Inr R_NilValue
   \<and> ret (px_to_sexp (date_value 719163) pxfDate) = Inr (ScalarReal (Fin 0))
   \<and> ret (px_to_sexp (date_value 3000000) pxfDate) = Inr (ScalarReal (Fin 2280837))"
  using date_decoding [of "date_value 0"] date_decoding [of "date_value (- 1)"]
    date_decoding [of "date_value 3000001"] date_decoding [of "date_value 719163"]
    date_decoding [of "date_value 3000000"]
  by (simp add: date_value_def)

text \<open>
  Claim C4. A timestamp whose null flag is unset decodes to the absent marker exactly
  when the raw millisecond count equals zero or its quotient by \<open>1000.0\<close>, as a double,
  is negative; otherwise it decodes to that quotient minus \<open>719163 \<times> 86400\<close>. The raw
  value \<open>719163 \<times> 86400 \<times> 1000\<close> decodes to second \<open>0\<close>.
\<close>

theorem timestamp_decoding:
  assumes "isnull v = NUL"
  shows "(ret (px_to_sexp v pxfTimestamp) = Inr R_NilValue
           \<longleftrightarrow> d_is_zero (dval v) \<or> d_negative (ddiv (dval v) 1000))
       \<and> (\<not> (d_is_zero (dval v) \<or> d_negative (ddiv (dval v) 1000)) \<longrightarrow>
            ret (px_to_sexp v pxfTimestamp)
              = Inr (ScalarReal (dsub (ddiv (dval v) 1000) (719163 * 86400))))
       \<and> (dval v = Fin (719163 * 86400 * 1000) \<longrightarrow>
            ret (px_to_sexp v pxfTimestamp) = Inr (ScalarReal (Fin 0)))"
proof -
  have "ddiv (Fin (719163 * 86400 * 1000)) 1000 = Fin 62135683200"
    by (simp add: rnd_numeral)
  moreover have "dsub (Fin 62135683200) (719163 * 86400) = Fin 0"
    by (simp add: rnd_zero)
  ultimately show ?thesis
    using assms by (simp add: px_to_sexp_def pxf_defs returns_def Let_def)
qed

theorem timestamp_decoding_witness:
  "ret (px_to_sexp (timestamp_value (Fin 0)) pxfTimestamp) = Inr R_NilValue
   \<and> ret (px_to_sexp (timestamp_value (Fin (- 1000))) pxfTimestamp) = Inr R_NilValue
   \<and> ret (px_to_sexp (timestamp_value (Fin 62135683200000)) pxfTimestamp)
       = Inr (ScalarReal (Fin 0))
   \<and> ret (px_to_sexp (timestamp_value (Fin 62135683201000)) pxfTimestamp)
       = Inr (ScalarReal (Fin 1))
   \<and> ret (px_to_sexp (timestamp_value NaN) pxfTimestamp) = Inr (ScalarReal NaN)"
  using timestamp_decoding [of "timestamp_value (Fin 0)"]
    timestamp_decoding [of "timestamp_value (Fin (- 1000))"]
    timestamp_decoding [of "timestamp_value (Fin 62135683200000)"]
    timestamp_decoding [of "timestamp_value (Fin 62135683201000)"]
    timestamp_decoding [of "timestamp_value NaN"]
  by (simp add: timestamp_value_def rnd_exact)

text \<open>
  Claim C7. Whatever the field type code and whatever the value carries, a value whose
  null flag is set decodes to the absent marker.
\<close>

theorem null_flag_absent:
  assumes "isnull v \<noteq> NUL"
  shows "ret (px_to_sexp v ftype) = Inr R_NilValue"
  using assms by (simp add: px_to_sexp_def returns_def)

theorem null_flag_absent_witness:
  "ret (px_to_sexp (string_value (CHR 0x01) (Some (64, ''abc'')) 3) pxfBytes) = Inr R_NilValue
   \<and> ret (px_to_sexp ((date_value 719163)\<lparr>isnull := CHR 0x01\<rparr>) pxfDate) = Inr R_NilValue"
  using null_flag_absent [of "string_value (CHR 0x01) (Some (64, ''abc'')) 3" pxfBytes]
    null_flag_absent [of "(date_value 719163)\<lparr>isnull := CHR 0x01\<rparr>" pxfDate]
  by (simp add: string_value_def date_value_def NUL_def)

subsection \<open>The branches of the decoder that hold a buffer\<close>

lemma then_free_returns:
  "ret (then_free r p) = Inr x \<Longrightarrow> released (then_free r p) = px_free p"
  by (cases r) (simp_all add: then_free_def returns_def raises_def)

lemma px_to_sexp_Alpha:
  "isnull v = NUL \<Longrightarrow> px_to_sexp v pxfAlpha =
     (case str_val v of None \<Rightarrow> returns NA_STRING [] | Some p \<Rightarrow> then_free (mkChar p) (Some p))"
  by (simp add: px_to_sexp_def)

lemma px_to_sexp_BCD:
  "isnull v = NUL \<Longrightarrow> px_to_sexp v pxfBCD =
     (case str_val v of
        None \<Rightarrow> raises Fault_null_pointer
      | Some p \<Rightarrow>
         (case strcmp_eq (snd p) BCD_blank of
            None \<Rightarrow> raises Fault_out_of_bounds
          | Some True \<Rightarrow> returns R_NilValue (px_free (Some p))
          | Some False \<Rightarrow> then_free (mkChar p) (Some p)))"
  by (simp add: px_to_sexp_def pxf_defs)

lemma px_to_sexp_Memo:
  "isnull v = NUL \<Longrightarrow> ftype = pxfMemoBLOb \<or> ftype = pxfFmtMemoBLOb \<Longrightarrow> px_to_sexp v ftype =
     (case str_val v of
        None \<Rightarrow> returns R_NilValue []
      | Some p \<Rightarrow> then_free (mkCharLen (Some p) (str_len v)) (Some p))"
  by (auto simp add: px_to_sexp_def pxf_defs)

lemma px_to_sexp_Bytes:
  "isnull v = NUL \<Longrightarrow> px_to_sexp v pxfBytes =
     then_free (mkCharLen (str_val v) (str_len v)) (str_val v)"
  by (simp add: px_to_sexp_def pxf_defs)

lemma px_to_sexp_BLOb:
  "isnull v = NUL \<Longrightarrow> ftype = pxfBLOb \<or> ftype = pxfGraphic \<or> ftype = pxfOLE \<Longrightarrow>
   px_to_sexp v ftype =
     (if str_len v = 0 then
        (if str_val v \<noteq> None then returns R_NilValue (px_free (str_val v))
         else returns R_NilValue [])
      else then_free (raw_copy (str_val v) (str_len v)) (str_val v))"
  by (auto simp add: px_to_sexp_def pxf_defs)

text \<open>
  The branches that return. When the null flag is set the decode step returns at once
  and releases nothing. When the flag is unset, the field type is one that carries a
  buffer, the buffer pointer is not null and the step returns a value, the buffer is
  released exactly once: the list of released addresses is the buffer's address alone.
  That covers the branches that return the absent marker because the blank sentinel
  matched or because the length was zero.
\<close>

lemma returning_step_releases_once:
  "(isnull v \<noteq> NUL \<longrightarrow> released (px_to_sexp v ftype) = [])
   \<and> (isnull v = NUL \<and> str_val v = Some (a, bs) \<and> ftype \<in> buffer_types
        \<and> ret (px_to_sexp v ftype) = Inr r
      \<longrightarrow> released (px_to_sexp v ftype) = [a])"
proof (intro conjI impI)
  assume "isnull v \<noteq> NUL"
  then show "released (px_to_sexp v ftype) = []"
    by (simp add: px_to_sexp_def returns_def)
next
  assume h: "isnull v = NUL \<and> str_val v = Some (a, bs) \<and> ftype \<in> buffer_types
        \<and> ret (px_to_sexp v ftype) = Inr r"
  then have n: "isnull v = NUL" and s: "str_val v = Some (a, bs)"
    and r: "ret (px_to_sexp v ftype) = Inr r" by simp_all
  have f: "px_free (Some (a, bs)) = [a]" by (simp add: px_free_def)
  from h consider "ftype = pxfAlpha" | "ftype = pxfBCD"
    | "ftype = pxfMemoBLOb \<or> ftype = pxfFmtMemoBLOb" | "ftype = pxfBytes"
    | "ftype = pxfBLOb \<or> ftype = pxfGraphic \<or> ftype = pxfOLE"
    by (auto simp: buffer_types_def)
  then show "released (px_to_sexp v ftype) = [a]"
  proof cases
    case 1
    with r show ?thesis
      by (simp add: px_to_sexp_Alpha [OF n] s then_free_returns f)
  next
    case 2
    with r show ?thesis
      by (cases "strcmp_eq bs BCD_blank")
         (auto simp: px_to_sexp_BCD [OF n] s then_free_returns f returns_def raises_def
            split: bool.splits)
  next
    case 3
    with r show ?thesis
      by (simp add: px_to_sexp_Memo [OF n 3] s then_free_returns f)
  next
    case 4
    with r show ?thesis
      by (simp add: px_to_sexp_Bytes [OF n] s then_free_returns f)
  next
    case 5
    with r show ?thesis
      by (cases "str_len v = 0")
         (simp_all add: px_to_sexp_BLOb [OF n 5] s then_free_returns f returns_def)
  qed
qed

lemma returning_step_releases_once_example:
  "released (px_to_sexp (string_value (CHR 0x01) (Some (64, ''abc'' @ [NUL])) 3) pxfAlpha) = []
   \<and> released (px_to_sexp (string_value NUL (Some (64, ''abc'' @ [NUL])) 3) pxfAlpha) = [64]
   \<and> released (px_to_sexp (string_value NUL (Some (65, BCD_blank @ [NUL])) 34) pxfBCD) = [65]
   \<and> released (px_to_sexp (string_value NUL (Some (66, [])) 0) pxfBLOb) = [66]"
  using returning_step_releases_once [of "string_value (CHR 0x01) (Some (64, ''abc'' @ [NUL])) 3" pxfAlpha]
    returning_step_releases_once [of "string_value NUL (Some (64, ''abc'' @ [NUL])) 3" pxfAlpha 64 "''abc'' @ [NUL]" "CharSxp ''abc''"]
    returning_step_releases_once [of "string_value NUL (Some (65, BCD_blank @ [NUL])) 34" pxfBCD 65 "BCD_blank @ [NUL]" R_NilValue]
    returning_step_releases_once [of "string_value NUL (Some (66, [])) 0" pxfBLOb 66 "[]" R_NilValue]
  by (simp add: px_to_sexp_def string_value_def NUL_def returns_def buffer_types_def pxf_defs
      then_free_def mkChar_def BCD_blank_def px_free_def)

text \<open>
  Claim C2 at the inputs where the code departs from it. A memo, formatted memo or
  inline binary value whose null flag is unset and whose three bytes are \<open>A\<close>, NUL,
  \<open>B\<close> makes \<open>mkCharLen\<close> raise R's embedded-NUL error; the call of \<open>pxdoc->free\<close>
  that follows it in the source is never reached, and the buffer at address \<open>64\<close> is
  released not once but never. The same buffer holding \<open>AB\<close> is released once.
\<close>

theorem raise_skips_release:
  "px_to_sexp (string_value NUL (Some (64, [CHR ''A'', NUL, CHR ''B''])) 3) pxfMemoBLOb
     = \<lparr>ret = Inl Err_embedded_nul, released = [], warned = []\<rparr>
   \<and> px_to_sexp (string_value NUL (Some (64, [CHR ''A'', NUL, CHR ''B''])) 3) pxfFmtMemoBLOb
     = \<lparr>ret = Inl Err_embedded_nul, released = [], warned = []\<rparr>
   \<and> released (px_to_sexp (string_value NUL (Some (64, [CHR ''A'', NUL, CHR ''B''])) 3)
        pxfBytes) = []
   \<and> px_to_sexp (string_value NUL (Some (64, ''AB'')) 2) pxfMemoBLOb
     = \<lparr>ret = Inr (CharSxp ''AB''), released = [64], warned = []\<rparr>"
  by (simp add: px_to_sexp_def string_value_def NUL_def pxf_defs then_free_def
      mkCharLen_def returns_def raises_def px_free_def)

text \<open>
  Claim C10. For a decimal value whose null flag is unset, a null buffer pointer is read
  by the comparison with the blank sentinel (a fault), where fixed text and the two
  memo types return an absent marker; with a buffer, the result is decided by that
  comparison alone.
\<close>

theorem bcd_no_null_guard:
  assumes "isnull v = NUL"
  shows "(str_val v = None \<longrightarrow>
            ret (px_to_sexp v pxfBCD) = Inl Fault_null_pointer
          \<and> ret (px_to_sexp v pxfAlpha) = Inr NA_STRING
          \<and> ret (px_to_sexp v pxfMemoBLOb) = Inr R_NilValue
          \<and> ret (px_to_sexp v pxfFmtMemoBLOb) = Inr R_NilValue)
       \<and> (\<forall>p. str_val v = Some p \<longrightarrow>
            ret (px_to_sexp v pxfBCD) =
              (case strcmp_eq (snd p) BCD_blank of
                 None \<Rightarrow> Inl Fault_out_of_bounds
               | Some True \<Rightarrow> Inr R_NilValue
               | Some False \<Rightarrow> mkChar p))"
proof (intro conjI impI allI)
  fix p assume "str_val v = Some p"
  then show "ret (px_to_sexp v pxfBCD) =
      (case strcmp_eq (snd p) BCD_blank of
         None \<Rightarrow> Inl Fault_out_of_bounds
       | Some True \<Rightarrow> Inr R_NilValue
       | Some False \<Rightarrow> mkChar p)"
    by (cases "mkChar p")
       (simp_all add: px_to_sexp_BCD [OF assms] returns_def raises_def then_free_def
          split: option.split bool.split)
qed (simp_all add: px_to_sexp_BCD [OF assms] px_to_sexp_Alpha [OF assms]
       px_to_sexp_Memo [OF assms] returns_def raises_def)

theorem bcd_no_null_guard_witness:
  "ret (px_to_sexp (string_value NUL None 0) pxfBCD) = Inl Fault_null_pointer
   \<and> ret (px_to_sexp (string_value NUL None 0) pxfAlpha) = Inr NA_STRING
   \<and> ret (px_to_sexp (string_value NUL None 0) pxfMemoBLOb) = Inr R_NilValue
   \<and> ret (px_to_sexp (string_value NUL (Some (65, BCD_blank @ [NUL])) 34) pxfBCD) = Inr R_NilValue
   \<and> ret (px_to_sexp (string_value NUL (Some (65, ''12.50'' @ [NUL])) 5) pxfBCD) = Inr (CharSxp ''12.50'')"
  using bcd_no_null_guard [of "string_value NUL None 0"]
    bcd_no_null_guard [of "string_value NUL (Some (65, BCD_blank @ [NUL])) 34"]
    bcd_no_null_guard [of "string_value NUL (Some (65, ''12.50'' @ [NUL])) 5"]
  by (simp add: string_value_def BCD_blank_def NUL_def mkChar_def)

text \<open>
  Claim C6 at the inputs where the code departs from it. The column of an inline binary
  field is a list, yet the decoder builds a character string with \<open>mkCharLen\<close>: the
  three bytes \<open>A\<close>, NUL, \<open>B\<close> raise R's embedded-NUL error and the buffer is
  never released, where the same bytes in a blob field give the raw vector; without a
  zero byte the element stored is a string, not a raw vector.
\<close>

theorem bytes_decoded_as_string:
  "column_type pxfBytes = VECSXP
   \<and> px_to_sexp (string_value NUL (Some (64, [CHR ''A'', NUL, CHR ''B''])) 3) pxfBytes
       = \<lparr>ret = Inl Err_embedded_nul, released = [], warned = []\<rparr>
   \<and> px_to_sexp (string_value NUL (Some (64, [CHR ''A'', NUL, CHR ''B''])) 3) pxfBLOb
       = \<lparr>ret = Inr (RawSxp [CHR ''A'', NUL, CHR ''B'']), released = [64], warned = []\<rparr>
   \<and> px_to_sexp (string_value NUL (Some (64, ''AB'')) 2) pxfBytes
       = \<lparr>ret = Inr (CharSxp ''AB''), released = [64], warned = []\<rparr>"
  by (simp add: px_to_sexp_def string_value_def NUL_def pxf_defs column_type_def then_free_def
      mkCharLen_def raw_copy_def returns_def raises_def px_free_def)

subsection \<open>The sample session\<close>

lemmas session_defs = pxlib_open_file_c_def single_string_def Rf_isNull_def PX_new_def
  PX_open_file_def PX_close_def PX_delete_def teardown_def make_handle_def
  R_MakeExternalPtr_def R_RegisterCFinalizerEx_def R_ClearExternalPtr_def
  R_ExternalPtrAddr_def is_EXTPTRSXP_def check_pxdoc_ptr_def pxlib_close_file_c_def
  pxdoc_finalizer_def

lemma opened_session_eq:
  "opened_session = \<lparr>files = demo_files, px_new_ok = True, next_addr = 1,
     heap = (\<lambda>a. None)(0 := Some (Opened broken_table)),
     extptr_addr = (\<lambda>e. None)(0 := Some 0), next_extptr = 1, finalizable = [0],
     calls = [Call_PX_new 0, Call_PX_open_file 0 ''plain.db''], r_warnings = []\<rparr>"
  by (simp add: opened_session_def demo_world_def session_defs demo_files_def
      broken_table_def table_def)

lemma closed_session_eq:
  "closed_session = \<lparr>files = demo_files, px_new_ok = True, next_addr = 1,
     heap = (\<lambda>a. None),
     extptr_addr = (\<lambda>e. None), next_extptr = 1, finalizable = [0],
     calls = [Call_PX_new 0, Call_PX_open_file 0 ''plain.db'', Call_PX_delete 0],
     r_warnings = []\<rparr>"
  by (simp add: closed_session_def opened_session_eq session_defs)

lemma close_closed_raises:
  "R_ExternalPtrAddr w x = None \<Longrightarrow>
     pxlib_close_file_c w x = (Inl Err_connection_closed_or_invalid, w)"
  by (simp add: pxlib_close_file_c_def check_pxdoc_ptr_def)

lemma finalizer_closed_noop:
  "R_ExternalPtrAddr w x = None \<Longrightarrow> pxdoc_finalizer w x = w"
  by (simp add: pxdoc_finalizer_def)

subsection \<open>The dataset assembly\<close>

lemma TYPEOF_allocVector: "TYPEOF (allocVector ty n) = ty"
  by (cases ty) simp_all

lemma column_type_unknown: "t \<notin> known_types \<Longrightarrow> column_type t = STRSXP"
  by (simp add: known_types_def column_type_def)

lemma px_to_sexp_null:
  "isnull v \<noteq> NUL \<Longrightarrow> px_to_sexp v t = returns R_NilValue []"
  by (simp add: px_to_sexp_def)

lemma px_to_sexp_unknown:
  "t \<notin> known_types \<Longrightarrow> isnull v = NUL \<Longrightarrow>
     px_to_sexp v t = \<lparr>ret = Inr R_NilValue, released = [], warned = [t]\<rparr>"
  by (simp add: known_types_def px_to_sexp_def)

text \<open>
  Claim C5, as the code has it. The type mapper allocates one column per field, of the
  kind that the field's type code selects: short, long and autoincrement give R's
  integer vector \<open>INTSXP\<close>; number, currency, date, time and timestamp the real vector;
  logical the logical vector; fixed text, BCD and the two memo types the character
  vector; inline binary, OLE, graphic and blob the list. Any other type code gives the
  character vector, and allocating raises nothing and warns of nothing: the warning
  about such a type code comes from the value decoder, once for each of its values
  whose null flag is unset, and the value decodes to the absent marker.
\<close>

theorem type_mapper_classification:
  "map TYPEOF (alloc_columns fs (length fs) n) = map (\<lambda>f. column_type (px_ftype f)) fs
   \<and> column_type pxfShort = INTSXP \<and> column_type pxfLong = INTSXP
   \<and> column_type pxfAutoInc = INTSXP
   \<and> column_type pxfNumber = REALSXP \<and> column_type pxfCurrency = REALSXP
   \<and> column_type pxfDate = REALSXP \<and> column_type pxfTime = REALSXP
   \<and> column_type pxfTimestamp = REALSXP
   \<and> column_type pxfLogical = LGLSXP
   \<and> column_type pxfAlpha = STRSXP \<and> column_type pxfBCD = STRSXP
   \<and> column_type pxfMemoBLOb = STRSXP \<and> column_type pxfFmtMemoBLOb = STRSXP
   \<and> column_type pxfBytes = VECSXP \<and> column_type pxfOLE = VECSXP
   \<and> column_type pxfGraphic = VECSXP \<and> column_type pxfBLOb = VECSXP
   \<and> (t \<notin> known_types \<longrightarrow> column_type t = STRSXP
        \<and> ret (px_to_sexp v t) = Inr R_NilValue
        \<and> warned (px_to_sexp v t) = (if isnull v = NUL then [t] else []))"
proof -
  have "map TYPEOF (alloc_columns fs (length fs) n) = map (\<lambda>f. column_type (px_ftype f)) fs"
    by (rule nth_equalityI) (simp_all add: alloc_columns_def TYPEOF_allocVector)
  moreover have "ret (px_to_sexp v t) = Inr R_NilValue
      \<and> warned (px_to_sexp v t) = (if isnull v = NUL then [t] else [])" if "t \<notin> known_types"
    using px_to_sexp_unknown [OF that, of v] px_to_sexp_null [of v t]
    by (cases "isnull v = NUL") (simp_all add: returns_def)
  moreover have "column_type pxfShort = INTSXP" "column_type pxfLong = INTSXP"
    "column_type pxfAutoInc = INTSXP" "column_type pxfNumber = REALSXP"
    "column_type pxfCurrency = REALSXP" "column_type pxfDate = REALSXP"
    "column_type pxfTime = REALSXP" "column_type pxfTimestamp = REALSXP"
    "column_type pxfLogical = LGLSXP" "column_type pxfAlpha = STRSXP"
    "column_type pxfBCD = STRSXP" "column_type pxfMemoBLOb = STRSXP"
    "column_type pxfFmtMemoBLOb = STRSXP" "column_type pxfBytes = VECSXP"
    "column_type pxfOLE = VECSXP" "column_type pxfGraphic = VECSXP"
    "column_type pxfBLOb = VECSXP"
    by (simp_all add: column_type_def pxf_defs)
  ultimately show ?thesis
    using column_type_unknown [of t] by blast
qed

theorem type_mapper_classification_witness:
  "map TYPEOF (alloc_columns [field ''X'' 99, field ''N'' pxfLong, field ''D'' pxfDate,
       field ''B'' pxfBytes, field ''L'' pxfLogical, field ''A'' pxfAlpha] 6 2)
     = [STRSXP, INTSXP, REALSXP, VECSXP, LGLSXP, STRSXP]
   \<and> 99 \<notin> known_types
   \<and> warned (px_to_sexp (long_value 1) 99) = [99]
   \<and> warned (px_to_sexp null_value 99) = []"
proof -
  have k: "99 \<notin> known_types" by (simp add: known_types_def pxf_defs)
  have c: "column_type 99 = STRSXP" using k by (rule column_type_unknown)
  show ?thesis
    using k type_mapper_classification [of "[field ''X'' 99, field ''N'' pxfLong,
        field ''D'' pxfDate, field ''B'' pxfBytes, field ''L'' pxfLogical, field ''A'' pxfAlpha]"
        2 99 "long_value 1"]
      type_mapper_classification [of "[]" 0 99 null_value]
    by (simp add: c field_def long_value_def null_value_def NUL_def eval_nat_numeral)
qed

text \<open>
  Claim C5 as stated fails on a table whose field of the unknown type code \<open>99\<close> holds
  a null value: the field becomes a character column and the call gives no warning. The
  integer column keeps the low 32 bits of a long: \<open>2\<^sup>3\<^sup>2 + 5\<close> is stored as \<open>5\<close>.
\<close>

theorem unknown_type_without_warning:
  "result (get_data exotic_table) =
     Inr (Some [\<lparr>col_name = ''X'', col_data = StrCol [NA_STRING], col_attrs = []\<rparr>,
                \<lparr>col_name = ''N'', col_data = IntCol [5], col_attrs = []\<rparr>])
   \<and> warnings_given (get_data exotic_table) = []"
  by code_simp

lemma fill_record_ok:
  "list_all (\<lambda>j. j < length vals \<and> \<not> isl (ret (px_to_sexp (vals ! j) (px_ftype (fs ! j))))) js
   \<Longrightarrow> fst (fill_record fs vals i js st) = None"
proof (induction js arbitrary: st)
  case Nil
  show ?case by simp
next
  case (Cons j js)
  then obtain r where r: "ret (px_to_sexp (vals ! j) (px_ftype (fs ! j))) = Inr r"
    by (cases "ret (px_to_sexp (vals ! j) (px_ftype (fs ! j)))") simp_all
  from Cons.prems have "j < length vals" and "list_all (\<lambda>j. j < length vals
      \<and> \<not> isl (ret (px_to_sexp (vals ! j) (px_ftype (fs ! j))))) js" by simp_all
  with r Cons.IH show ?case by (simp add: Let_def)
qed

lemma fill_records_first_failure:
  assumes "\<forall>k\<in>set ks. case PX_retrieve_record d k of None \<Rightarrow> False
             | Some vals \<Rightarrow> decodes fs nf vals"
    and "PX_retrieve_record d i = None"
  shows "fst (fill_records d fs nf (ks @ i # rest) st) = Some (Err_retrieve_record (int i + 1))"
  using assms(1)
proof (induction ks arbitrary: st)
  case Nil
  show ?case using assms(2) by simp
next
  case (Cons k ks)
  from Cons.prems obtain vals where v: "PX_retrieve_record d k = Some vals"
    and dec: "decodes fs nf vals"
    by (cases "PX_retrieve_record d k") auto
  from dec have "fst (fill_record fs vals k [0..<nf] st) = None"
    unfolding decodes_def by (rule fill_record_ok)
  then obtain st' where s: "fill_record fs vals k [0..<nf] st = (None, st')"
    by (cases "fill_record fs vals k [0..<nf] st") simp
  from Cons.prems have "\<forall>k\<in>set ks. case PX_retrieve_record d k of None \<Rightarrow> False
             | Some vals \<Rightarrow> decodes fs nf vals" by simp
  then have "fst (fill_records d fs nf (ks @ i # rest) st') = Some (Err_retrieve_record (int i + 1))"
    by (rule Cons.IH)
  with v s show ?case by simp
qed

text \<open>
  Claim C9. On a live handle whose document has a positive record count and its field
  descriptors, if the raw value array of record \<open>i\<close> cannot be retrieved, the records
  before it having been retrieved and decoded, then the call raises the error that
  names the 1-based index \<open>i + 1\<close>, and returns no dataset.
\<close>

theorem retrieval_failure_is_fatal:
  assumes "check_pxdoc_ptr w h = Inr (Some a)"
    and "heap w a = Some (Opened d)"
    and "0 < px_numrecords d"
    and "px_fields d = Some fs"
    and "0 \<le> px_numfields d" and "px_numfields d \<le> int (length fs)"
    and "i < nat (px_numrecords d)"
    and "PX_retrieve_record d i = None"
    and "\<forall>k<i. case PX_retrieve_record d k of None \<Rightarrow> False
             | Some vals \<Rightarrow> decodes fs (nat (px_numfields d)) vals"
  shows "result (pxlib_get_data_c w h) = Inl (Err_retrieve_record (int i + 1))"
proof -
  let ?n = "nat (px_numrecords d)" and ?nf = "nat (px_numfields d)"
  let ?st = "\<lparr>cols = alloc_columns fs ?nf ?n, freed = [], warnings = []\<rparr>"
  have "[0..<i + (?n - i)] = [0..<i] @ [i..<i + (?n - i)]"
    by (rule upt_add_eq_append) simp
  moreover have "[i..<?n] = i # [Suc i..<?n]"
    using assms(7) by (rule upt_conv_Cons)
  ultimately have split: "[0..<?n] = [0..<i] @ i # [Suc i..<?n]"
    using assms(7) by simp
  have pre: "\<forall>k\<in>set [0..<i]. case PX_retrieve_record d k of None \<Rightarrow> False
             | Some vals \<Rightarrow> decodes fs ?nf vals"
    using assms(9) by simp
  have "fst (fill_records d fs ?nf [0..<?n] ?st) = Some (Err_retrieve_record (int i + 1))"
    unfolding split by (rule fill_records_first_failure [OF pre assms(8)])
  then obtain st' where
    "fill_records d fs ?nf [0..<?n] ?st = (Some (Err_retrieve_record (int i + 1)), st')"
    by (cases "fill_records d fs ?nf [0..<?n] ?st") simp
  then have "result (get_data d) = Inl (Err_retrieve_record (int i + 1))"
    using assms(3-6)
    by (simp add: get_data_def PX_get_num_records_def PX_get_num_fields_def PX_get_fields_def
        Let_def)
  then show ?thesis
    using assms(1,2) by (simp add: pxlib_get_data_c_def)
qed

theorem retrieval_failure_is_fatal_witness:
  "result (pxlib_get_data_c opened_session (ExtPtr 0)) = Inl (Err_retrieve_record 2)"
proof -
  note o = opened_session_eq
  have 1: "check_pxdoc_ptr opened_session (ExtPtr 0) = Inr (Some 0)"
    by (simp add: o check_pxdoc_ptr_def is_EXTPTRSXP_def R_ExternalPtrAddr_def)
  have 2: "heap opened_session 0 = Some (Opened broken_table)"
    by (simp add: o)
  have 3: "0 < px_numrecords broken_table"
    and 4: "px_fields broken_table = Some [field ''N'' pxfLong, field ''D'' pxfDate]"
    and 5: "0 \<le> px_numfields broken_table"
    and 6: "px_numfields broken_table
              \<le> int (length [field ''N'' pxfLong, field ''D'' pxfDate])"
    and 7: "1 < nat (px_numrecords broken_table)"
    and 8: "PX_retrieve_record broken_table 1 = None"
    by (simp_all add: broken_table_def table_def PX_retrieve_record_def)
  have "decodes [field ''N'' pxfLong, field ''D'' pxfDate] 2 [long_value 7, date_value 719163]"
    by code_simp
  then have 9: "\<forall>k<1. case PX_retrieve_record broken_table k of None \<Rightarrow> False
      | Some vals \<Rightarrow> decodes [field ''N'' pxfLong, field ''D'' pxfDate]
          (nat (px_numfields broken_table)) vals"
    by (simp add: broken_table_def table_def PX_retrieve_record_def)
  show ?thesis
    using retrieval_failure_is_fatal [OF 1 2 3 4 5 6 7 8 9] by simp
qed

subsection \<open>The session\<close>

lemma close_live:
  assumes "R_ExternalPtrAddr w x = Some a"
  shows "pxlib_close_file_c w x = (Inr R_NilValue, pxdoc_finalizer w x)"
    and "R_ExternalPtrAddr (pxdoc_finalizer w x) x = None"
    and "calls (pxdoc_finalizer w x) = calls w @ [Call_PX_delete a]"
    and "heap (pxdoc_finalizer w x) a = None"
proof -
  from assms obtain e where x: "x = ExtPtr e" and e: "extptr_addr w e = Some a"
    by (cases x) (simp_all add: R_ExternalPtrAddr_def)
  show "pxlib_close_file_c w x = (Inr R_NilValue, pxdoc_finalizer w x)"
    by (simp add: x e pxlib_close_file_c_def check_pxdoc_ptr_def pxdoc_finalizer_def
        is_EXTPTRSXP_def R_ExternalPtrAddr_def)
  show "R_ExternalPtrAddr (pxdoc_finalizer w x) x = None"
    by (simp add: x e pxdoc_finalizer_def is_EXTPTRSXP_def R_ExternalPtrAddr_def
        R_ClearExternalPtr_def PX_delete_def)
  show "calls (pxdoc_finalizer w x) = calls w @ [Call_PX_delete a]"
    by (simp add: x e pxdoc_finalizer_def is_EXTPTRSXP_def R_ExternalPtrAddr_def
        R_ClearExternalPtr_def PX_delete_def)
  show "heap (pxdoc_finalizer w x) a = None"
    by (simp add: x e pxdoc_finalizer_def is_EXTPTRSXP_def R_ExternalPtrAddr_def
        R_ClearExternalPtr_def PX_delete_def)
qed

text \<open>
  Claim C1, as the code has it. A close or a finalizer run on a live handle deletes the
  backend document once and clears the external pointer, and both leave the same
  world. On a handle whose external pointer is cleared, the finalizer does nothing and
  does not fail, after a close as after an earlier finalizer; \<open>pxlib_close_file_c\<close>
  releases nothing either, but it does not succeed: \<open>check_pxdoc_ptr\<close> raises the
  closed-or-invalid error before the test \<open>pxdoc != NULL\<close> is reached.
\<close>

theorem close_releases_once:
  "(R_ExternalPtrAddr w x = None \<longrightarrow>
      pxlib_close_file_c w x = (Inl Err_connection_closed_or_invalid, w)
      \<and> pxdoc_finalizer w x = w)
   \<and> (R_ExternalPtrAddr w x = Some a \<longrightarrow>
      pxlib_close_file_c w x = (Inr R_NilValue, pxdoc_finalizer w x)
      \<and> R_ExternalPtrAddr (pxdoc_finalizer w x) x = None
      \<and> heap (pxdoc_finalizer w x) a = None
      \<and> calls (pxdoc_finalizer w x) = calls w @ [Call_PX_delete a]
      \<and> pxlib_close_file_c (pxdoc_finalizer w x) x
          = (Inl Err_connection_closed_or_invalid, pxdoc_finalizer w x)
      \<and> pxdoc_finalizer (pxdoc_finalizer w x) x = pxdoc_finalizer w x)"
  using close_live [of w x a] close_closed_raises [of w x] finalizer_closed_noop [of w x]
    close_closed_raises [of "pxdoc_finalizer w x" x]
    finalizer_closed_noop [of "pxdoc_finalizer w x" x]
  by blast

theorem close_releases_once_witness:
  "pxlib_close_file_c opened_session (ExtPtr 0) = (Inr R_NilValue, closed_session)
   \<and> pxdoc_finalizer opened_session (ExtPtr 0) = closed_session
   \<and> calls closed_session = [Call_PX_new 0, Call_PX_open_file 0 ''plain.db'', Call_PX_delete 0]
   \<and> pxdoc_finalizer closed_session (ExtPtr 0) = closed_session
   \<and> fst (pxlib_close_file_c closed_session (ExtPtr 0)) = Inl Err_connection_closed_or_invalid"
proof -
  have o: "R_ExternalPtrAddr opened_session (ExtPtr 0) = Some 0"
    by (simp add: opened_session_eq R_ExternalPtrAddr_def)
  have c: "R_ExternalPtrAddr closed_session (ExtPtr 0) = None"
    by (simp add: closed_session_eq R_ExternalPtrAddr_def)
  have s: "closed_session = pxdoc_finalizer opened_session (ExtPtr 0)"
    using close_releases_once [of opened_session "ExtPtr 0" 0] o
    by (simp add: closed_session_def)
  show ?thesis
    using close_releases_once [of opened_session "ExtPtr 0" 0]
      close_releases_once [of closed_session "ExtPtr 0" 0] o c
    by (simp add: s [symmetric]) (simp add: closed_session_eq)
qed

text \<open>
  Claim C1 as stated fails on the second close: the plain file is opened and its handle
  closed, and a second \<open>pxlib_close_file_c\<close> on that handle raises, as does a close
  after the finalizer has run.
\<close>

theorem close_twice_raises:
  "fst (pxlib_open_file_c demo_checksum demo_world (StrVec [Some ''plain.db'']) R_NilValue)
     = Inr (ExtPtr 0)
   \<and> fst (pxlib_close_file_c opened_session (ExtPtr 0)) = Inr R_NilValue
   \<and> extptr_addr closed_session 0 = None
   \<and> pxlib_close_file_c closed_session (ExtPtr 0)
       = (Inl Err_connection_closed_or_invalid, closed_session)
   \<and> pxdoc_finalizer closed_session (ExtPtr 0) = closed_session
   \<and> fst (pxlib_close_file_c (pxdoc_finalizer opened_session (ExtPtr 0)) (ExtPtr 0))
       = Inl Err_connection_closed_or_invalid"
proof -
  have "fst (pxlib_open_file_c demo_checksum demo_world (StrVec [Some ''plain.db'']) R_NilValue)
     = Inr (ExtPtr 0)"
    by (simp add: demo_world_def session_defs demo_files_def broken_table_def table_def)
  moreover have "fst (pxlib_close_file_c opened_session (ExtPtr 0)) = Inr R_NilValue"
    by (simp add: opened_session_eq session_defs)
  moreover have c: "R_ExternalPtrAddr closed_session (ExtPtr 0) = None"
    by (simp add: closed_session_eq R_ExternalPtrAddr_def)
  moreover have "R_ExternalPtrAddr (pxdoc_finalizer opened_session (ExtPtr 0)) (ExtPtr 0) = None"
    by (simp add: opened_session_eq session_defs)
  ultimately show ?thesis
    by (simp add: close_closed_raises finalizer_closed_noop) (simp add: R_ExternalPtrAddr_def)
qed

text \<open>
  Claim C8. When the file opens and its header reports a non-zero encryption value, a
  missing password, or a password whose checksum differs from that value, makes the
  call raise the authentication error; before that the document just allocated is
  closed and deleted, no external pointer is made, and the backend holds no document
  that it did not hold before the call.
\<close>

theorem open_encrypted_rejected:
  assumes "single_string filename_sexp = Some filename"
    and "password_sexp = R_NilValue
         \<or> (\<exists>pw. single_string password_sexp = Some pw
                \<and> ulong_of_long (cksum pw) \<noteq> px_encryption d)"
    and "px_new_ok w" and "files w filename = Some d" and "px_encryption d \<noteq> 0"
  shows "pxlib_open_file_c cksum w filename_sexp password_sexp =
     (Inl (if password_sexp = R_NilValue then Err_password_protected
           else Err_incorrect_password),
      w\<lparr>next_addr := next_addr w + 1, heap := (heap w)(next_addr w := None),
        calls := calls w @ [Call_PX_new (next_addr w),
          Call_PX_open_file (next_addr w) filename,
          Call_PX_close (next_addr w), Call_PX_delete (next_addr w)]\<rparr>)"
  using assms(2)
proof
  assume "password_sexp = R_NilValue"
  then show ?thesis
    using assms(1,3,4,5)
    by (simp add: pxlib_open_file_c_def Rf_isNull_def PX_new_def PX_open_file_def PX_close_def
        PX_delete_def teardown_def)
next
  assume "\<exists>pw. single_string password_sexp = Some pw
                \<and> ulong_of_long (cksum pw) \<noteq> px_encryption d"
  then obtain pw where pw: "single_string password_sexp = Some pw"
    and bad: "ulong_of_long (cksum pw) \<noteq> px_encryption d" by blast
  from pw have n: "password_sexp \<noteq> R_NilValue" by (auto simp: single_string_def)
  show ?thesis
    using assms(1,3,4,5) pw bad n
    by (simp add: pxlib_open_file_c_def Rf_isNull_def PX_new_def PX_open_file_def PX_close_def
        PX_delete_def teardown_def)
qed

theorem open_encrypted_rejected_witness:
  "pxlib_open_file_c demo_checksum demo_world (StrVec [Some ''secret.db'']) R_NilValue
     = (Inl Err_password_protected,
        demo_world\<lparr>next_addr := 1,
          calls := [Call_PX_new 0, Call_PX_open_file 0 ''secret.db'', Call_PX_close 0,
            Call_PX_delete 0]\<rparr>)
   \<and> pxlib_open_file_c demo_checksum demo_world (StrVec [Some ''secret.db''])
        (StrVec [Some ''guess''])
     = (Inl Err_incorrect_password,
        demo_world\<lparr>next_addr := 1,
          calls := [Call_PX_new 0, Call_PX_open_file 0 ''secret.db'', Call_PX_close 0,
            Call_PX_delete 0]\<rparr>)"
proof -
  have f: "single_string (StrVec [Some ''secret.db'']) = Some ''secret.db''"
    and p: "single_string (StrVec [Some ''guess'']) = Some ''guess''"
    by (simp_all add: single_string_def)
  have b: "ulong_of_long (demo_checksum ''guess'') \<noteq> px_encryption secret_table"
    by (simp add: ulong_of_long_def demo_checksum_def secret_table_def table_def)
  have w: "px_new_ok demo_world" "files demo_world ''secret.db'' = Some secret_table"
    "px_encryption secret_table \<noteq> 0"
    by (simp_all add: demo_world_def demo_files_def secret_table_def table_def)
  have h: "(heap demo_world)(next_addr demo_world := None) = heap demo_world"
    by (simp add: demo_world_def fun_eq_iff)
  show ?thesis
    using open_encrypted_rejected [of "StrVec [Some ''secret.db'']" "''secret.db''"
        R_NilValue demo_checksum secret_table demo_world, OF f _ w]
      open_encrypted_rejected [of "StrVec [Some ''secret.db'']" "''secret.db''"
        "StrVec [Some ''guess'']" demo_checksum secret_table demo_world, OF f _ w] p b
    by (simp add: h) (simp add: demo_world_def)
qed

end
